theory Spec2Isabelle
  imports Complex_Main "HOL-Library.AList"
begin

section \<open>Data model\<close>

text \<open>
  The typed component (network-viz-directed.tsx, second variant, and
  components/NetworkVisualization.tsx) declares its nodes as an extension of the layout
  library's node datum: a position \<open>x\<close>, \<open>y\<close> and an optional pin \<open>fx\<close>, \<open>fy\<close>
  (\<open>null\<close> is \<open>None\<close>). A drag event carries a pointer position under the same field
  names and the number \<open>active\<close> of other gestures in progress. JavaScript numbers are
  modelled as reals: rounding, NaN and the infinities are outside the model.
\<close>

record xy =
  x :: real
  y :: real

record SimulationNodeDatum = xy +
  fx :: "real option"
  fy :: "real option"

record DeveloperNode = SimulationNodeDatum +
  developer_id :: string
  country :: string
  betweenness :: real
  in_degree :: int
  out_degree :: int

record D3DragEvent = xy +
  active :: nat

text \<open>
  A link's endpoints are node ids as loaded and node references once the layout has
  resolved them (\<open>source: string | DeveloperNode\<close>), so the record is polymorphic in
  the endpoint.
\<close>

record 'e DeveloperLink =
  source :: 'e
  target :: 'e
  weight :: real

section \<open>Scale mapper\<close>

text \<open>
  Modelled from the spec: \<open>d3.max\<close> of the charting library, which is not part of the
  sources. Section 2 describes it as "computing the maximum observed value per column";
  on an empty column there is no value (\<open>undefined\<close>, here \<open>None\<close>).
\<close>

fun d3max :: "real list \<Rightarrow> real option" where
  "d3max [] = None"
| "d3max (v # vs) = Some (fold max vs v)"

text \<open>
  JavaScript's \<open>a || b\<close> on \<open>number | undefined\<close>: \<open>undefined\<close> and \<open>0\<close> are falsy.
\<close>

definition orElse :: "real option \<Rightarrow> real \<Rightarrow> real" where
  "orElse a b = (case a of None \<Rightarrow> b | Some v \<Rightarrow> if v = 0 then b else v)"

text \<open>
  \<open>d3.scaleLinear().domain([inMin, inMax]).range([outMin, outMax])\<close> of the charting
  library, which is not part of the sources; the handlers' \<open>(event, d)\<close> signature
  needs its version 6 or later. On a domain that is not degenerate it is the linear
  interpolation that section 4.2 of the spec gives, "output = outMin + (value - inMin) /
  (inMax - inMin) * (outMax - outMin)", with no clamping. On a degenerate domain
  (\<open>inMax = inMin\<close>) the library does not divide: it takes the input to the middle of
  the unit interval and so returns the middle of the range.
\<close>

fun scaleLinear :: "real \<times> real \<Rightarrow> real \<times> real \<Rightarrow> real \<Rightarrow> real" where
  "scaleLinear (inMin, inMax) (outMin, outMax) v =
     (if inMax = inMin then (outMin + outMax) / 2
      else outMin + (v - inMin) / (inMax - inMin) * (outMax - outMin))"

text \<open>
  \<^verbatim>\<open>
  const betweennessScale = d3.scaleLinear<number>()
    .domain([0, d3.max(data.nodes, d => d.betweenness) || 0])
    .range([8, 25]);
  const edgeWeightScale = d3.scaleLinear<number>()
    .domain([1, d3.max(data.links, d => d.weight) || 1])
    .range([1, 4]);
  \<close>
  (The untyped first variant in network-viz-directed.tsx builds the same two scales
  without the \<open>||\<close> guards.)
\<close>

definition betweennessDomain :: "('a DeveloperNode_scheme) list \<Rightarrow> real \<times> real" where
  "betweennessDomain nodes = (0, orElse (d3max (map betweenness nodes)) 0)"

definition betweennessScale :: "('a DeveloperNode_scheme) list \<Rightarrow> real \<Rightarrow> real" where
  "betweennessScale nodes = scaleLinear (betweennessDomain nodes) (8, 25)"

definition edgeWeightDomain :: "('e, 'a) DeveloperLink_scheme list \<Rightarrow> real \<times> real" where
  "edgeWeightDomain links = (1, orElse (d3max (map weight links)) 1)"

definition edgeWeightScale :: "('e, 'a) DeveloperLink_scheme list \<Rightarrow> real \<Rightarrow> real" where
  "edgeWeightScale links = scaleLinear (edgeWeightDomain links) (1, 4)"

text \<open>
  \<^verbatim>\<open>
  .attr('marker-end', d => `url(#arrow-${
    d.weight <= 2 ? 'small' : d.weight <= 4 ? 'medium' : 'large'
  })`)
  \<close>
\<close>

definition markerSize :: "real \<Rightarrow> string" where
  "markerSize w = (if w \<le> 2 then ''small'' else if w \<le> 4 then ''medium'' else ''large'')"

definition markerEnd :: "('e, 'a) DeveloperLink_scheme \<Rightarrow> string" where
  "markerEnd d = ''url(#arrow-'' @ markerSize (weight d) @ '')''"

text \<open>
  \<^verbatim>\<open>
  nodes.append('circle').attr('r', d => betweennessScale(d.betweenness))
  \<close>
\<close>

definition nodeRadius :: "('a DeveloperNode_scheme) list \<Rightarrow> 'a DeveloperNode_scheme \<Rightarrow> real" where
  "nodeRadius nodes d = betweennessScale nodes (betweenness d)"

section \<open>Tabular loader\<close>

text \<open>
  What the code can throw: a \<open>TypeError\<close> of the language (a property read on
  \<open>undefined\<close>, a call of something that is not a function), the reason of a
  rejected promise (a fetch or a file read that failed), and the layout library's
  \<open>Error("node not found: " + id)\<close>.
\<close>

datatype error = TypeError | Rejected string | NodeNotFound string

text \<open>
  \<open>String.prototype.split\<close> with a separator of one character: the empty string
  splits into one empty piece, and a trailing separator leaves an empty last piece.
\<close>

fun split :: "char \<Rightarrow> string \<Rightarrow> string list" where
  "split sep [] = [[]]"
| "split sep (c # cs) =
     (if c = sep then [] # split sep cs
      else (case split sep cs of [] \<Rightarrow> [[c]] | w # ws \<Rightarrow> (c # w) # ws))"

text \<open>
  \<open>String.prototype.trim\<close> removes white space and line terminators from both ends.
  Characters are code units below 256: tab, line feed, vertical tab, form feed, carriage
  return, space and the no-break space.
\<close>

definition isWhiteSpace :: "char \<Rightarrow> bool" where
  "isWhiteSpace c =
     (c \<in> set [CHR 0x09, CHR 0x0A, CHR 0x0B, CHR 0x0C, CHR 0x0D, CHR '' '', CHR 0xA0])"

definition trim :: "string \<Rightarrow> string" where
  "trim s = rev (dropWhile isWhiteSpace (rev (dropWhile isWhiteSpace s)))"

text \<open>An array read \<open>xs[i]\<close>: \<open>undefined\<close> (\<open>None\<close>) out of range.\<close>

definition elemAt :: "'a list \<Rightarrow> nat \<Rightarrow> 'a option" where
  "elemAt xs i = (if i < length xs then Some (xs ! i) else None)"

text \<open>
  A decoded cell is a number, a string or \<open>null\<close>. The numbers are those that
  \<open>Number(s)\<close> returns when it is not NaN; the conversion itself is a parameter
  \<open>Number :: string \<Rightarrow> 'n option\<close> of the parser, with \<open>None\<close> for NaN.
\<close>

datatype 'n cell = Num 'n | Str string | Null

text \<open>
  A parsed row is an object with string keys, kept as an association list in the order
  in which the keys were first assigned (JavaScript itself lists keys that are array
  indices before the others). An assignment \<open>obj[k] = v\<close> on an object literal adds
  or overwrites an own property, except for the key \<open>__proto__\<close>, which is the
  prototype accessor and leaves the own properties as they are.
\<close>

type_synonym 'n row = "(string \<times> 'n cell) list"

definition setProp :: "'n row \<Rightarrow> string \<Rightarrow> 'n cell \<Rightarrow> 'n row" where
  "setProp obj k v = (if k = ''__proto__'' then obj else AList.update k v obj)"

text \<open>
  \<^verbatim>\<open>
  const parseCSV = (csv: string) => {
    const lines = csv.split('\n');
    const headers = lines[0].split(',');
    return lines.slice(1).map(line => {
      const values = line.split(',');
      return headers.reduce<Record<string, any>>((obj, header, i) => {
        obj[header.trim()] = values[i] ?
          isNaN(Number(values[i])) ? values[i].trim() : Number(values[i])
          : null;
        return obj;
      }, {});
    }).filter(row => Object.values(row).some(val => val !== null));
  };
  \<close>
  \<open>values[i]\<close> is falsy when it is \<open>undefined\<close> or the empty string.
\<close>

definition decodeCell :: "(string \<Rightarrow> 'n option) \<Rightarrow> string option \<Rightarrow> 'n cell" where
  "decodeCell Number v =
     (case v of
        None \<Rightarrow> Null
      | Some s \<Rightarrow>
          if s = [] then Null
          else (case Number s of None \<Rightarrow> Str (trim s) | Some n \<Rightarrow> Num n))"

definition rowOf :: "(string \<Rightarrow> 'n option) \<Rightarrow> string list \<Rightarrow> string list \<Rightarrow> 'n row" where
  "rowOf Number headers values =
     fold (\<lambda>(i, header) obj. setProp obj (trim header) (decodeCell Number (elemAt values i)))
       (enumerate 0 headers) []"

definition hasValue :: "'n row \<Rightarrow> bool" where
  "hasValue row = list_ex (\<lambda>val. val \<noteq> Null) (map snd row)"

definition parseCSV :: "(string \<Rightarrow> 'n option) \<Rightarrow> string \<Rightarrow> error + 'n row list" where
  "parseCSV Number csv =
     (let lines = split (CHR 0x0A) csv in
      case elemAt lines 0 of
        None \<Rightarrow> Inl TypeError
      | Some l0 \<Rightarrow>
          let headers = split (CHR '','') l0 in
          Inr (filter hasValue
                 (map (\<lambda>line. rowOf Number headers (split (CHR '','') line)) (drop 1 lines))))"









section \<open>Country flags\<close>

text \<open>
  \<open>countryMap\<close> is an object literal, so a property read \<open>countryMap[country]\<close> finds
  the own properties first and then the members that every object inherits from
  \<open>Object.prototype\<close>; these are functions (and, for \<open>__proto__\<close>, the prototype
  object itself), never strings.
\<close>

datatype property = StringValue string | PrototypeMember string | Undefined

definition objectPrototype :: "string list" where
  "objectPrototype =
     [''constructor'', ''__defineGetter__'', ''__defineSetter__'', ''hasOwnProperty'',
      ''__lookupGetter__'', ''__lookupSetter__'', ''isPrototypeOf'',
      ''propertyIsEnumerable'', ''toString'', ''valueOf'', ''__proto__'',
      ''toLocaleString'']"

definition getProp :: "(string \<times> string) list \<Rightarrow> string \<Rightarrow> property" where
  "getProp obj key =
     (case map_of obj key of
        Some v \<Rightarrow> StringValue v
      | None \<Rightarrow> if key \<in> set objectPrototype then PrototypeMember key else Undefined)"

text \<open>
  \<^verbatim>\<open>
  function getCountryCode(country: string): string {
    const countryMap: Record<string, string> = {
      'USA': 'US', 'United States': 'US', 'United Kingdom': 'GB', 'Germany': 'DE',
      'France': 'FR', 'Spain': 'ES', 'Italy': 'IT', 'Netherlands': 'NL', 'Belgium': 'BE',
      'Switzerland': 'CH', 'Austria': 'AT', 'Canada': 'CA', 'Australia': 'AU',
      'India': 'IN', 'Unknown': 'UN'
    };
    return countryMap[country] || 'UN';
  }
  \<close>
  \<open>a || b\<close> is \<open>b\<close> when \<open>a\<close> is \<open>undefined\<close> or the empty string, and \<open>a\<close>
  otherwise.
\<close>

definition countryMap :: "(string \<times> string) list" where
  "countryMap =
     [(''USA'', ''US''), (''United States'', ''US''), (''United Kingdom'', ''GB''),
      (''Germany'', ''DE''), (''France'', ''FR''), (''Spain'', ''ES''), (''Italy'', ''IT''),
      (''Netherlands'', ''NL''), (''Belgium'', ''BE''), (''Switzerland'', ''CH''),
      (''Austria'', ''AT''), (''Canada'', ''CA''), (''Australia'', ''AU''),
      (''India'', ''IN''), (''Unknown'', ''UN'')]"

definition getCountryCode :: "string \<Rightarrow> property" where
  "getCountryCode c =
     (case getProp countryMap c of
        StringValue v \<Rightarrow> if v = [] then StringValue ''UN'' else StringValue v
      | PrototypeMember k \<Rightarrow> PrototypeMember k
      | Undefined \<Rightarrow> StringValue ''UN'')"

text \<open>
  \<open>String.prototype.toLowerCase\<close> on the letters A to Z (the codes of the table have
  no other letters).
\<close>

definition toLowerCase :: "string \<Rightarrow> string" where
  "toLowerCase s =
     map (\<lambda>c. if 65 \<le> (of_char c :: nat) \<and> (of_char c :: nat) \<le> 90
                then char_of ((of_char c :: nat) + 32) else c) s"

text \<open>
  \<^verbatim>\<open>
  .attr('xlink:href', d => {
    const country = d.country === 'United States' ? 'USA' : d.country;
    return `https://flagcdn.com/w40/${getCountryCode(country).toLowerCase()}.png`;
  })
  \<close>
  The call of \<open>toLowerCase\<close> throws a \<open>TypeError\<close> on a value that is not a string.
\<close>

definition flagCountry :: "'a DeveloperNode_scheme \<Rightarrow> string" where
  "flagCountry d = (if country d = ''United States'' then ''USA'' else country d)"

definition flagHref :: "'a DeveloperNode_scheme \<Rightarrow> error + string" where
  "flagHref d =
     (case getCountryCode (flagCountry d) of
        StringValue code \<Rightarrow> Inr (''https://flagcdn.com/w40/'' @ toLowerCase code @ ''.png'')
      | PrototypeMember k \<Rightarrow> Inl TypeError
      | Undefined \<Rightarrow> Inl TypeError)"

section \<open>Layout links and the tick handler\<close>





text \<open>
  Following a reference and reading a field of the node: a \<open>TypeError\<close> when the
  reference is \<open>undefined\<close>.
\<close>

definition deref :: "'a list \<Rightarrow> nat option \<Rightarrow> error + 'a" where
  "deref nodes ref =
     (case ref of
        None \<Rightarrow> Inl TypeError
      | Some i \<Rightarrow> (case elemAt nodes i of None \<Rightarrow> Inl TypeError | Some d \<Rightarrow> Inr d))"

text \<open>
  The \<open>d\<close> attribute of a link is path data. The template strings of the source are kept
  as commands with numeric arguments: \<open>M x,y\<close>, the relative arc
  \<open>a rx,ry rotation large,sweep dx,dy\<close> and the absolute arc
  \<open>A rx,ry rotation large,sweep x,y\<close>.
\<close>

datatype pathCommand =
    MoveTo real real
  | ArcRel real real real bool bool real real
  | ArcAbs real real real bool bool real real

text \<open>
  \<^verbatim>\<open>
  links.attr('d', d => {
    const source = d.source as DeveloperNode;
    const target = d.target as DeveloperNode;
    const dx = target.x! - source.x!;
    const dy = target.y! - source.y!;
    const dr = Math.sqrt(dx * dx + dy * dy) * 2;
    if (source.developer_id === target.developer_id) {
      const x = source.x!;
      const y = source.y!;
      const r = betweennessScale(source.betweenness);
      return `M ${x-r},${y} a ${r},${r} 0 1,1 ${r*2},0 a ${r},${r} 0 1,1 ${-r*2},0`;
    } else {
      return `M${source.x},${source.y}A${dr},${dr} 0 0,1 ${target.x},${target.y}`;
    }
  });
  \<close>
\<close>

definition linkPath ::
  "('a DeveloperNode_scheme) list \<Rightarrow> (nat option, 'b) DeveloperLink_scheme \<Rightarrow>
     error + pathCommand list" where
  "linkPath nodes d =
     (case deref nodes (target d) of
        Inl e \<Rightarrow> Inl e
      | Inr t \<Rightarrow>
          (case deref nodes (source d) of
             Inl e \<Rightarrow> Inl e
           | Inr s \<Rightarrow>
               (let dx = x t - x s;
                    dy = y t - y s;
                    dr = sqrt (dx * dx + dy * dy) * 2
                in if developer_id s = developer_id t then
                     (let r = betweennessScale nodes (betweenness s)
                      in Inr [MoveTo (x s - r) (y s),
                              ArcRel r r 0 True True (r * 2) 0,
                              ArcRel r r 0 True True (- r * 2) 0])
                   else Inr [MoveTo (x s) (y s), ArcAbs dr dr 0 False True (x t) (y t)])))"



text \<open>
  The geometry of path data, to say what a closed loop is: the point where the path
  starts and the point where it ends.
\<close>

fun startPoint :: "pathCommand list \<Rightarrow> (real \<times> real) option" where
  "startPoint (MoveTo px py # cs) = Some (px, py)"
| "startPoint cs = None"

fun moveBy :: "pathCommand \<Rightarrow> real \<times> real \<Rightarrow> real \<times> real" where
  "moveBy (MoveTo px py) p = (px, py)"
| "moveBy (ArcRel rx ry rot large sweep dx dy) (px, py) = (px + dx, py + dy)"
| "moveBy (ArcAbs rx ry rot large sweep qx qy) p = (qx, qy)"

definition endPoint :: "pathCommand list \<Rightarrow> real \<times> real" where
  "endPoint cs = fold moveBy cs (0, 0)"

section \<open>Drag handlers\<close>

text \<open>
  Of the simulation the handlers use the target energy and \<open>restart()\<close>; the number
  of restarts records the calls.
\<close>

record Simulation =
  alphaTarget :: real
  restarts :: nat

text \<open>
  \<^verbatim>\<open>
  function dragstarted(event, d) {
    if (!event.active) simulation.alphaTarget(0.3).restart();
    d.fx = d.x;
    d.fy = d.y;
  }
  function dragged(event, d) {
    d.fx = event.x;
    d.fy = event.y;
  }
  function dragended(event, d) {
    if (!event.active) simulation.alphaTarget(0);
    d.fx = null;
    d.fy = null;
  }
  \<close>
\<close>

fun dragstarted ::
  "'e D3DragEvent_scheme \<Rightarrow> Simulation \<times> 'a SimulationNodeDatum_scheme \<Rightarrow>
     Simulation \<times> 'a SimulationNodeDatum_scheme" where
  "dragstarted event (simulation, d) =
     (if active event = 0
      then simulation\<lparr>alphaTarget := 0.3, restarts := restarts simulation + 1\<rparr>
      else simulation,
      d\<lparr>fx := Some (x d), fy := Some (y d)\<rparr>)"

fun dragged ::
  "'e D3DragEvent_scheme \<Rightarrow> Simulation \<times> 'a SimulationNodeDatum_scheme \<Rightarrow>
     Simulation \<times> 'a SimulationNodeDatum_scheme" where
  "dragged event (simulation, d) = (simulation, d\<lparr>fx := Some (x event), fy := Some (y event)\<rparr>)"

fun dragended ::
  "'e D3DragEvent_scheme \<Rightarrow> Simulation \<times> 'a SimulationNodeDatum_scheme \<Rightarrow>
     Simulation \<times> 'a SimulationNodeDatum_scheme" where
  "dragended event (simulation, d) =
     (if active event = 0 then simulation\<lparr>alphaTarget := 0\<rparr> else simulation,
      d\<lparr>fx := None, fy := None\<rparr>)"

text \<open>
  A gesture on a node, as the drag behaviour delivers it: one start, any number of
  moves, one end.
\<close>

definition gesture ::
  "'e D3DragEvent_scheme \<Rightarrow> 'e D3DragEvent_scheme list \<Rightarrow> 'e D3DragEvent_scheme \<Rightarrow>
     Simulation \<times> 'a SimulationNodeDatum_scheme \<Rightarrow> Simulation \<times> 'a SimulationNodeDatum_scheme" where
  "gesture start moves finish st = dragended finish (fold dragged moves (dragstarted start st))"

section \<open>Properties of the scale mapper\<close>

lemma fold_max_Max: "fold max vs (v::real) = Max (set (v # vs))"
  by (simp only: Max.set_eq_fold)

lemma d3max_Max: "vs \<noteq> [] \<Longrightarrow> d3max vs = Some (Max (set vs))"
  by (cases vs) (simp_all only: d3max.simps fold_max_Max, simp)

lemma fold_max_zeros: "\<forall>u \<in> set vs. u = 0 \<Longrightarrow> fold max vs (0::real) = 0"
  by (induction vs) simp_all

lemma d3max_zeros: "\<forall>u \<in> set vs. u = 0 \<Longrightarrow> d3max vs = None \<or> d3max vs = Some 0"
  by (cases vs) (simp_all add: fold_max_zeros)

lemma scaleLinear_mono:
  assumes "inMin < inMax" and "outMin \<le> outMax" and "v \<le> w"
  shows "scaleLinear (inMin, inMax) (outMin, outMax) v
           \<le> scaleLinear (inMin, inMax) (outMin, outMax) w"
  using assms by (simp add: divide_right_mono mult_right_mono)

lemma betweennessScale_eq:
  "betweennessScale nodes v = scaleLinear (0, snd (betweennessDomain nodes)) (8, 25) v"
  by (simp add: betweennessScale_def betweennessDomain_def)

lemma edgeWeightScale_eq:
  "edgeWeightScale links v = scaleLinear (1, snd (edgeWeightDomain links)) (1, 4) v"
  by (simp add: edgeWeightScale_def edgeWeightDomain_def)

text \<open>The upper end of the radius domain is the largest betweenness of the table.\<close>

lemma betweennessDomain_Max:
  "nodes \<noteq> [] \<Longrightarrow> betweennessDomain nodes = (0, Max (betweenness ` set nodes))"
  by (simp add: betweennessDomain_def d3max_Max orElse_def)

text \<open>
  C1, as the code has it. When the upper end of a scale's domain is above the lower end
  (the largest betweenness is positive, the largest weight is above 1), the radius scale
  maps the lower end of its domain to 8 and the upper end to 25, the width scale maps 1
  to 1 and the largest weight to 4, and both are monotonic non-decreasing on all inputs.
  For a node table of two nodes with betweenness 0 and 10 the radii are 8 and 25.
\<close>

theorem scale_endpoints_monotone:
  "(0 < snd (betweennessDomain nodes) \<longrightarrow>
      betweennessScale nodes (fst (betweennessDomain nodes)) = 8 \<and>
      betweennessScale nodes (snd (betweennessDomain nodes)) = 25 \<and>
      (\<forall>v w. v \<le> w \<longrightarrow> betweennessScale nodes v \<le> betweennessScale nodes w)) \<and>
   (1 < snd (edgeWeightDomain links) \<longrightarrow>
      edgeWeightScale links (fst (edgeWeightDomain links)) = 1 \<and>
      edgeWeightScale links (snd (edgeWeightDomain links)) = 4 \<and>
      (\<forall>v w. v \<le> w \<longrightarrow> edgeWeightScale links v \<le> edgeWeightScale links w)) \<and>
   (betweenness a = 0 \<and> betweenness b = 10 \<longrightarrow>
      betweennessScale [a, b] (betweenness a) = 8 \<and>
      betweennessScale [a, b] (betweenness b) = 25)"
proof (intro conjI impI allI)
  assume pos: "0 < snd (betweennessDomain nodes)"
  from pos show "betweennessScale nodes (fst (betweennessDomain nodes)) = 8"
    by (simp add: betweennessScale_eq betweennessDomain_def)
  show "betweennessScale nodes (snd (betweennessDomain nodes)) = 25"
    using pos by (simp add: betweennessScale_eq)
  fix v w :: real
  assume "v \<le> w"
  with pos show "betweennessScale nodes v \<le> betweennessScale nodes w"
    unfolding betweennessScale_eq by (intro scaleLinear_mono) simp_all
next
  assume big: "1 < snd (edgeWeightDomain links)"
  from big show "edgeWeightScale links (fst (edgeWeightDomain links)) = 1"
    by (simp add: edgeWeightScale_eq edgeWeightDomain_def)
  show "edgeWeightScale links (snd (edgeWeightDomain links)) = 4"
    using big by (simp add: edgeWeightScale_eq)
  fix v w :: real
  assume "v \<le> w"
  with big show "edgeWeightScale links v \<le> edgeWeightScale links w"
    unfolding edgeWeightScale_eq by (intro scaleLinear_mono) simp_all
next
  assume ab: "betweenness a = 0 \<and> betweenness b = 10"
  then show "betweennessScale [a, b] (betweenness a) = 8"
    by (simp add: betweennessScale_def betweennessDomain_def orElse_def)
  from ab show "betweennessScale [a, b] (betweenness b) = 25"
    by (simp add: betweennessScale_def betweennessDomain_def orElse_def)
qed

theorem scale_endpoints_monotone_witness:
  "(let a = \<lparr>x = 0, y = 0, fx = None, fy = None, developer_id = ''a'', country = ''France'',
              betweenness = 0, in_degree = 0, out_degree = 1\<rparr>;
        b = \<lparr>x = 0, y = 0, fx = None, fy = None, developer_id = ''b'', country = ''Spain'',
              betweenness = 10, in_degree = 1, out_degree = 0\<rparr>;
        links = [\<lparr>source = ''a'', target = ''b'', weight = 1\<rparr>,
                 \<lparr>source = ''b'', target = ''a'', weight = 5\<rparr>]
    in betweennessDomain [a, b] = (0, 10) \<and>
       betweennessScale [a, b] 0 = 8 \<and>
       betweennessScale [a, b] 10 = 25 \<and>
       betweennessScale [a, b] 3 \<le> betweennessScale [a, b] 7 \<and>
       edgeWeightDomain links = (1, 5) \<and>
       edgeWeightScale links 1 = 1 \<and>
       edgeWeightScale links 5 = 4 \<and>
       edgeWeightScale links 2 \<le> edgeWeightScale links 3)"
  using scale_endpoints_monotone
    [where nodes = "[\<lparr>x = 0, y = 0, fx = None, fy = None, developer_id = ''a'',
                       country = ''France'', betweenness = 0, in_degree = 0, out_degree = 1\<rparr>,
                     \<lparr>x = 0, y = 0, fx = None, fy = None, developer_id = ''b'',
                       country = ''Spain'', betweenness = 10, in_degree = 1, out_degree = 0\<rparr>]"
       and links = "[\<lparr>source = ''a'', target = ''b'', weight = 1\<rparr>,
                     \<lparr>source = ''b'', target = ''a'', weight = 5\<rparr>]"
       and a = "\<lparr>x = 0, y = 0, fx = None, fy = None, developer_id = ''a'',
                  country = ''France'', betweenness = 0, in_degree = 0, out_degree = 1\<rparr>"
       and b = "\<lparr>x = 0, y = 0, fx = None, fy = None, developer_id = ''b'',
                  country = ''Spain'', betweenness = 10, in_degree = 1, out_degree = 0\<rparr>"]
  by (simp add: betweennessDomain_def edgeWeightDomain_def orElse_def)

text \<open>
  Without the condition the claim fails. For a node table whose betweenness is 0
  throughout, both ends of the radius domain are 0, and the scale cannot give 8 at the
  lower end and 25 at the upper end. For one edge of weight 1/2 the width
  domain is [1, 1/2], and the scale gives 4 at 1/2 and 1 at 1: it decreases.
\<close>

theorem scale_endpoints_counterexample:
  "betweennessDomain
     [\<lparr>x = 0, y = 0, fx = None, fy = None, developer_id = ''a'', country = ''France'',
       betweenness = 0, in_degree = 0, out_degree = 0\<rparr>] = (0, 0) \<and>
   betweennessScale
     [\<lparr>x = 0, y = 0, fx = None, fy = None, developer_id = ''a'', country = ''France'',
       betweenness = 0, in_degree = 0, out_degree = 0\<rparr>] 0 \<noteq> 25 \<and>
   edgeWeightDomain [\<lparr>source = ''a'', target = ''b'', weight = 1 / 2\<rparr>] = (1, 1 / 2) \<and>
   edgeWeightScale [\<lparr>source = ''a'', target = ''b'', weight = 1 / 2\<rparr>] (1 / 2) = 4 \<and>
   edgeWeightScale [\<lparr>source = ''a'', target = ''b'', weight = 1 / 2\<rparr>] 1 = 1"
  by (simp add: betweennessDomain_def betweennessScale_def edgeWeightDomain_def
      edgeWeightScale_def orElse_def)

text \<open>
  C2, as the code has it. When the domain of a scale is degenerate (both ends equal), the
  scale returns the middle of its range for every input: 16.5 for the radius scale, 2.5
  for the width scale. This is the case in particular when every betweenness is 0 (or
  the node table is empty), and when every weight is 0 (the \<open>|| 1\<close> guard then makes
  the domain [1, 1]). There is no failing branch: no division is evaluated on a
  degenerate domain.
\<close>

theorem degenerate_domain_midpoint:
  "scaleLinear (c, c) (outMin, outMax) v = (outMin + outMax) / 2 \<and>
   (snd (betweennessDomain nodes) = fst (betweennessDomain nodes) \<longrightarrow>
      betweennessScale nodes v = 33 / 2) \<and>
   (snd (edgeWeightDomain links) = fst (edgeWeightDomain links) \<longrightarrow>
      edgeWeightScale links v = 5 / 2) \<and>
   ((\<forall>n \<in> set nodes. betweenness n = 0) \<longrightarrow>
      betweennessDomain nodes = (0, 0) \<and> betweennessScale nodes v = 33 / 2) \<and>
   ((\<forall>l \<in> set links. weight l = 0) \<longrightarrow>
      edgeWeightDomain links = (1, 1) \<and> edgeWeightScale links v = 5 / 2)"
proof (intro conjI impI)
  show "scaleLinear (c, c) (outMin, outMax) v = (outMin + outMax) / 2"
    by simp
  assume "snd (betweennessDomain nodes) = fst (betweennessDomain nodes)"
  then show "betweennessScale nodes v = 33 / 2"
    by (simp add: betweennessScale_def betweennessDomain_def)
next
  assume "snd (edgeWeightDomain links) = fst (edgeWeightDomain links)"
  then show "edgeWeightScale links v = 5 / 2"
    by (simp add: edgeWeightScale_def edgeWeightDomain_def)
next
  assume "\<forall>n \<in> set nodes. betweenness n = 0"
  then have "\<forall>u \<in> set (map betweenness nodes). u = 0"
    by simp
  from d3max_zeros [OF this] show dom0: "betweennessDomain nodes = (0, 0)"
    by (auto simp: betweennessDomain_def orElse_def)
  show "betweennessScale nodes v = 33 / 2"
    by (simp add: betweennessScale_def dom0)
next
  assume "\<forall>l \<in> set links. weight l = 0"
  then have "\<forall>u \<in> set (map weight links). u = 0"
    by simp
  from d3max_zeros [OF this] show dom1: "edgeWeightDomain links = (1, 1)"
    by (auto simp: edgeWeightDomain_def orElse_def)
  show "edgeWeightScale links v = 5 / 2"
    by (simp add: edgeWeightScale_def dom1)
qed

theorem degenerate_domain_midpoint_witness:
  "(let nodes = [\<lparr>x = 1, y = 2, fx = None, fy = None, developer_id = ''a'',
                   country = ''France'', betweenness = 0, in_degree = 0, out_degree = 0\<rparr>];
        links = [\<lparr>source = ''a'', target = ''a'', weight = 0\<rparr>]
    in betweennessDomain nodes = (0, 0) \<and> betweennessScale nodes 7 = 33 / 2 \<and>
       edgeWeightDomain links = (1, 1) \<and> edgeWeightScale links 7 = 5 / 2)"
  using degenerate_domain_midpoint
    [where nodes = "[\<lparr>x = 1, y = 2, fx = None, fy = None, developer_id = ''a'',
                   country = ''France'', betweenness = 0, in_degree = 0, out_degree = 0\<rparr>]"
       and links = "[\<lparr>source = ''a'', target = ''a'', weight = 0\<rparr>]" and v = 7]
  by simp

text \<open>
  The claim as stated, that the lower end of the range is returned, fails for the node
  table with one node of betweenness 0 (radius 16.5, not 8) and for the one edge of
  weight 1 (width 2.5, not 1).
\<close>

theorem degenerate_domain_counterexample:
  "betweennessDomain
     [\<lparr>x = 0, y = 0, fx = None, fy = None, developer_id = ''a'', country = ''France'',
       betweenness = 0, in_degree = 0, out_degree = 0\<rparr>] = (0, 0) \<and>
   betweennessScale
     [\<lparr>x = 0, y = 0, fx = None, fy = None, developer_id = ''a'', country = ''France'',
       betweenness = 0, in_degree = 0, out_degree = 0\<rparr>] 0 = 33 / 2 \<and>
   betweennessScale
     [\<lparr>x = 0, y = 0, fx = None, fy = None, developer_id = ''a'', country = ''France'',
       betweenness = 0, in_degree = 0, out_degree = 0\<rparr>] 0 \<noteq> 8 \<and>
   edgeWeightDomain [\<lparr>source = ''a'', target = ''b'', weight = 1\<rparr>] = (1, 1) \<and>
   edgeWeightScale [\<lparr>source = ''a'', target = ''b'', weight = 1\<rparr>] 1 = 5 / 2 \<and>
   edgeWeightScale [\<lparr>source = ''a'', target = ''b'', weight = 1\<rparr>] 1 \<noteq> 1"
  by (simp add: betweennessDomain_def betweennessScale_def edgeWeightDomain_def
      edgeWeightScale_def orElse_def)

text \<open>
  C4. The arrowhead marker of an edge is one of three, chosen by the weight alone with
  inclusive upper bounds on the lower buckets: up to 2 "small", above 2 and up to 4
  "medium", above 4 "large". Two edges of equal weight get the same marker whatever the
  dataset from which the width scale was built.
\<close>

theorem marker_classification:
  "(weight d \<le> 2 \<longrightarrow> markerEnd d = ''url(#arrow-small)'') \<and>
   (2 < weight d \<and> weight d \<le> 4 \<longrightarrow> markerEnd d = ''url(#arrow-medium)'') \<and>
   (4 < weight d \<longrightarrow> markerEnd d = ''url(#arrow-large)'') \<and>
   markerSize (weight d) \<in> {''small'', ''medium'', ''large''} \<and>
   (weight d = weight d' \<longrightarrow> markerEnd d = markerEnd d')"
  by (simp add: markerEnd_def markerSize_def)

theorem marker_classification_witness:
  "markerEnd \<lparr>source = ''a'', target = ''b'', weight = 2\<rparr> = ''url(#arrow-small)'' \<and>
   markerEnd \<lparr>source = ''a'', target = ''b'', weight = 4\<rparr> = ''url(#arrow-medium)'' \<and>
   markerEnd \<lparr>source = ''a'', target = ''b'', weight = 5\<rparr> = ''url(#arrow-large)'' \<and>
   markerEnd \<lparr>source = ''a'', target = ''b'', weight = 5\<rparr>
     = markerEnd \<lparr>source = ''c'', target = ''c'', weight = 5\<rparr>"
  using marker_classification [where d = "\<lparr>source = ''a'', target = ''b'', weight = 2\<rparr>"
      and d' = "\<lparr>source = ''c'', target = ''c'', weight = 2\<rparr>"]
    marker_classification [where d = "\<lparr>source = ''a'', target = ''b'', weight = 4\<rparr>"
      and d' = "\<lparr>source = ''c'', target = ''c'', weight = 4\<rparr>"]
    marker_classification [where d = "\<lparr>source = ''a'', target = ''b'', weight = 5\<rparr>"
      and d' = "\<lparr>source = ''c'', target = ''c'', weight = 5\<rparr>"]
  by (simp add: markerEnd_def markerSize_def)

section \<open>Properties of the rendered link paths\<close>

lemma fold_max_upper: "u \<in> set (v # vs) \<Longrightarrow> u \<le> fold max vs (v::real)"
  unfolding fold_max_Max by (rule Max_ge) simp_all

text \<open>A node of the table with a betweenness that is not negative has a radius of at least 8.\<close>

lemma betweennessScale_ge_8:
  assumes "d \<in> set nodes" and "0 \<le> betweenness d"
  shows "8 \<le> betweennessScale nodes (betweenness d)"
proof -
  from assms(1) have "map betweenness nodes \<noteq> []"
    by auto
  then obtain v vs where vvs: "map betweenness nodes = v # vs"
    by (cases "map betweenness nodes") auto
  have "betweenness d \<in> set (map betweenness nodes)"
    using assms(1) by simp
  then have le: "betweenness d \<le> fold max vs v"
    unfolding vvs by (rule fold_max_upper)
  have dom: "betweennessDomain nodes = (0, fold max vs v)"
    by (simp add: betweennessDomain_def vvs orElse_def)
  show ?thesis
  proof (cases "fold max vs v = 0")
    case True
    then show ?thesis by (simp add: betweennessScale_def dom)
  next
    case False
    with le assms(2) have "0 < fold max vs v" by simp
    with assms(2) have "0 \<le> betweenness d / fold max vs v * 17"
      by simp
    with False show ?thesis by (simp add: betweennessScale_def dom)
  qed
qed

lemma twice_distance:
  "sqrt ((tx - sx) * (tx - sx) + (ty - sy) * (ty - sy)) * 2
     = 2 * sqrt ((tx - sx)\<^sup>2 + (ty - sy)\<^sup>2)"
  by (simp add: power2_eq_square)

lemma sqrt_25: "sqrt 25 = 5"
  using real_sqrt_abs [of 5] by simp

text \<open>
  C5. Let \<open>s\<close> and \<open>t\<close> be the nodes that the source and the target of a link refer to.
  When they have the same id, the path of the link is two arcs of the node's rendered
  radius \<open>r\<close>: it starts at \<open>(x - r, y)\<close>, passes through \<open>(x + r, y)\<close> and ends where it
  started, a closed loop around the node's own position \<open>(x, y)\<close>; for a node of the
  table with a betweenness that is not negative \<open>r\<close> is at least 8, so the loop is not
  of zero length. When the ids differ, the path is one arc from the source's position to
  the target's, with both radii twice the Euclidean distance between the two positions.
\<close>

theorem link_path_geometry:
  assumes "deref nodes (source d) = Inr s" and "deref nodes (target d) = Inr t"
  shows
    "(developer_id s = developer_id t \<longrightarrow>
        linkPath nodes d =
          Inr [MoveTo (x s - nodeRadius nodes s) (y s),
               ArcRel (nodeRadius nodes s) (nodeRadius nodes s) 0 True True
                 (nodeRadius nodes s * 2) 0,
               ArcRel (nodeRadius nodes s) (nodeRadius nodes s) 0 True True
                 (- nodeRadius nodes s * 2) 0] \<and>
        (\<exists>p. linkPath nodes d = Inr p \<and>
             startPoint p = Some (x s - nodeRadius nodes s, y s) \<and>
             endPoint (take 2 p) = (x s + nodeRadius nodes s, y s) \<and>
             endPoint p = (x s - nodeRadius nodes s, y s)) \<and>
        (s \<in> set nodes \<and> 0 \<le> betweenness s \<longrightarrow> 8 \<le> nodeRadius nodes s)) \<and>
     (developer_id s \<noteq> developer_id t \<longrightarrow>
        linkPath nodes d =
          Inr [MoveTo (x s) (y s),
               ArcAbs (2 * sqrt ((x t - x s)\<^sup>2 + (y t - y s)\<^sup>2))
                 (2 * sqrt ((x t - x s)\<^sup>2 + (y t - y s)\<^sup>2))
                 0 False True (x t) (y t)])"
proof (intro conjI impI)
  assume same: "developer_id s = developer_id t"
  with assms show loop: "linkPath nodes d =
          Inr [MoveTo (x s - nodeRadius nodes s) (y s),
               ArcRel (nodeRadius nodes s) (nodeRadius nodes s) 0 True True
                 (nodeRadius nodes s * 2) 0,
               ArcRel (nodeRadius nodes s) (nodeRadius nodes s) 0 True True
                 (- nodeRadius nodes s * 2) 0]"
    by (simp add: linkPath_def nodeRadius_def Let_def)
  show "\<exists>p. linkPath nodes d = Inr p \<and>
             startPoint p = Some (x s - nodeRadius nodes s, y s) \<and>
             endPoint (take 2 p) = (x s + nodeRadius nodes s, y s) \<and>
             endPoint p = (x s - nodeRadius nodes s, y s)"
    unfolding loop by (simp add: endPoint_def numeral_2_eq_2)
next
  assume "s \<in> set nodes \<and> 0 \<le> betweenness s"
  then show "8 \<le> nodeRadius nodes s"
    unfolding nodeRadius_def by (simp add: betweennessScale_ge_8)
next
  assume "developer_id s \<noteq> developer_id t"
  with assms show "linkPath nodes d =
          Inr [MoveTo (x s) (y s),
               ArcAbs (2 * sqrt ((x t - x s)\<^sup>2 + (y t - y s)\<^sup>2))
                 (2 * sqrt ((x t - x s)\<^sup>2 + (y t - y s)\<^sup>2))
                 0 False True (x t) (y t)]"
    by (simp add: linkPath_def Let_def twice_distance)
qed

theorem link_path_geometry_witness:
  "(let a = \<lparr>x = 0, y = 0, fx = None, fy = None, developer_id = ''a'', country = ''France'',
              betweenness = 0, in_degree = 0, out_degree = 1\<rparr>;
        b = \<lparr>x = 3, y = 4, fx = None, fy = None, developer_id = ''b'', country = ''Spain'',
              betweenness = 10, in_degree = 2, out_degree = 1\<rparr>
    in deref [a, b] (Some 0) = Inr a \<and> deref [a, b] (Some 1) = Inr b \<and>
       linkPath [a, b] \<lparr>source = Some 1, target = Some 1, weight = 2\<rparr> =
         Inr [MoveTo (- 22) 4, ArcRel 25 25 0 True True 50 0,
              ArcRel 25 25 0 True True (- 50) 0] \<and>
       8 \<le> nodeRadius [a, b] b \<and>
       linkPath [a, b] \<lparr>source = Some 0, target = Some 1, weight = 2\<rparr> =
         Inr [MoveTo 0 0, ArcAbs 10 10 0 False True 3 4])"
proof -
  let ?a = "\<lparr>x = 0, y = 0, fx = None, fy = None, developer_id = ''a'', country = ''France'',
              betweenness = 0, in_degree = 0, out_degree = 1\<rparr>"
  let ?b = "\<lparr>x = 3, y = 4, fx = None, fy = None, developer_id = ''b'', country = ''Spain'',
              betweenness = 10, in_degree = 2, out_degree = 1\<rparr>"
  have da: "deref [?a, ?b] (source \<lparr>source = Some 0, target = Some (1::nat), weight = 2\<rparr>) = Inr ?a"
    and db: "deref [?a, ?b] (target \<lparr>source = Some (0::nat), target = Some 1, weight = 2\<rparr>) = Inr ?b"
    and sb: "deref [?a, ?b] (source \<lparr>source = Some 1, target = Some (1::nat), weight = 2\<rparr>) = Inr ?b"
    and tb: "deref [?a, ?b] (target \<lparr>source = Some (1::nat), target = Some 1, weight = 2\<rparr>) = Inr ?b"
    by (simp_all add: deref_def elemAt_def)
  have r: "nodeRadius [?a, ?b] ?b = 25"
    by (simp add: nodeRadius_def betweennessScale_def betweennessDomain_def orElse_def)
  from link_path_geometry [OF sb tb] link_path_geometry [OF da db] da sb show ?thesis
    by (simp add: r sqrt_25)
qed

section \<open>Properties of link resolution\<close>















section \<open>Properties of the drag handlers\<close>

lemma fold_dragged_fst: "fst (fold dragged moves st) = fst st"
  by (induction moves arbitrary: st) (auto simp: split_beta)

lemma fold_dragged_xy:
  "x (snd (fold dragged moves st)) = x (snd st) \<and> y (snd (fold dragged moves st)) = y (snd st)"
  by (induction moves arbitrary: st) (auto simp: split_beta)

lemma fold_dragged_more:
  "SimulationNodeDatum.more (snd (fold dragged moves st)) = SimulationNodeDatum.more (snd st)"
  by (induction moves arbitrary: st) (auto simp: split_beta)

lemma fold_dragged_pin:
  "fx (snd (fold dragged moves st)) = (if moves = [] then fx (snd st) else Some (x (last moves))) \<and>
   fy (snd (fold dragged moves st)) = (if moves = [] then fy (snd st) else Some (y (last moves)))"
  by (induction moves arbitrary: st) (auto simp: split_beta)

text \<open>
  C6. On drag-start the pin \<open>fx\<close>, \<open>fy\<close> of the node is set to its current position, on
  each drag-move to the pointer position of the event, and on drag-end both are cleared;
  nothing else of the node changes. During a gesture the pin is the position of the
  last move (the node's own position before the first move), and after the gesture the
  node is as it was before with both \<open>fx\<close> and \<open>fy\<close> null: its position is no longer
  fixed.
\<close>

theorem drag_pin_lifecycle:
  "snd (dragstarted ev (sim, d)) = d\<lparr>fx := Some (x d), fy := Some (y d)\<rparr> \<and>
   snd (dragged ev (sim, d)) = d\<lparr>fx := Some (x ev), fy := Some (y ev)\<rparr> \<and>
   snd (dragended ev (sim, d)) = d\<lparr>fx := None, fy := None\<rparr> \<and>
   snd (fold dragged moves (dragstarted start (sim, d))) =
     (if moves = [] then d\<lparr>fx := Some (x d), fy := Some (y d)\<rparr>
      else d\<lparr>fx := Some (x (last moves)), fy := Some (y (last moves))\<rparr>) \<and>
   snd (gesture start moves finish (sim, d)) = d\<lparr>fx := None, fy := None\<rparr>"
proof -
  let ?st = "fold dragged moves (dragstarted start (sim, d))"
  have xy: "x (snd ?st) = x d" "y (snd ?st) = y d"
    using fold_dragged_xy [of moves "dragstarted start (sim, d)"] by simp_all
  have more: "SimulationNodeDatum.more (snd ?st) = SimulationNodeDatum.more d"
    using fold_dragged_more [of moves "dragstarted start (sim, d)"] by simp
  have pin: "fx (snd ?st) = (if moves = [] then Some (x d) else Some (x (last moves)))"
    "fy (snd ?st) = (if moves = [] then Some (y d) else Some (y (last moves)))"
    using fold_dragged_pin [of moves "dragstarted start (sim, d)"] by simp_all
  have mid: "snd ?st =
     (if moves = [] then d\<lparr>fx := Some (x d), fy := Some (y d)\<rparr>
      else d\<lparr>fx := Some (x (last moves)), fy := Some (y (last moves))\<rparr>)"
    using xy more pin by (intro SimulationNodeDatum.equality) simp_all
  have "snd (gesture start moves finish (sim, d)) = (snd ?st)\<lparr>fx := None, fy := None\<rparr>"
    by (cases ?st) (simp add: gesture_def)
  also have "\<dots> = d\<lparr>fx := None, fy := None\<rparr>"
    by (simp only: mid) simp
  finally have "snd (gesture start moves finish (sim, d)) = d\<lparr>fx := None, fy := None\<rparr>" .
  moreover have "snd (dragstarted ev (sim, d)) = d\<lparr>fx := Some (x d), fy := Some (y d)\<rparr>"
    and "snd (dragged ev (sim, d)) = d\<lparr>fx := Some (x ev), fy := Some (y ev)\<rparr>"
    and "snd (dragended ev (sim, d)) = d\<lparr>fx := None, fy := None\<rparr>"
    by simp_all
  ultimately show ?thesis
    using mid by (intro conjI)
qed

theorem drag_pin_lifecycle_witness:
  "(let d = \<lparr>x = 1, y = 2, fx = None, fy = None\<rparr>;
        sim = \<lparr>alphaTarget = 0, restarts = 0\<rparr>;
        start = \<lparr>x = 1, y = 2, active = 0\<rparr>;
        moves = [\<lparr>x = 5, y = 6, active = 1\<rparr>, \<lparr>x = 7, y = 8, active = 1\<rparr>];
        finish = \<lparr>x = 7, y = 8, active = 0\<rparr>
    in snd (dragstarted start (sim, d)) = \<lparr>x = 1, y = 2, fx = Some 1, fy = Some 2\<rparr> \<and>
       snd (fold dragged moves (dragstarted start (sim, d)))
         = \<lparr>x = 1, y = 2, fx = Some 7, fy = Some 8\<rparr> \<and>
       snd (gesture start moves finish (sim, d)) = \<lparr>x = 1, y = 2, fx = None, fy = None\<rparr>)"
  using drag_pin_lifecycle
    [where d = "\<lparr>x = 1, y = 2, fx = None, fy = None\<rparr>"
       and sim = "\<lparr>alphaTarget = 0, restarts = 0\<rparr>"
       and ev = "\<lparr>x = 1, y = 2, active = 0\<rparr>"
       and start = "\<lparr>x = 1, y = 2, active = 0\<rparr>"
       and moves = "[\<lparr>x = 5, y = 6, active = 1\<rparr>, \<lparr>x = 7, y = 8, active = 1\<rparr>]"
       and finish = "\<lparr>x = 7, y = 8, active = 0\<rparr>"]
  by simp

text \<open>
  C10. The handlers touch the simulation only when no other gesture is active: with
  \<open>event.active\<close> zero, drag-start sets the target energy to 0.3 and restarts the
  simulation, and drag-end sets the target energy to 0; with another gesture active both
  leave the simulation as it is, and a drag-move never touches it. The pin of the node
  is set and cleared whatever \<open>event.active\<close> is.
\<close>

theorem reheat_guard:
  "(active ev = 0 \<longrightarrow>
      fst (dragstarted ev (sim, d)) = sim\<lparr>alphaTarget := 0.3, restarts := restarts sim + 1\<rparr> \<and>
      fst (dragended ev (sim, d)) = sim\<lparr>alphaTarget := 0\<rparr>) \<and>
   (active ev \<noteq> 0 \<longrightarrow>
      fst (dragstarted ev (sim, d)) = sim \<and> fst (dragended ev (sim, d)) = sim) \<and>
   fst (dragged ev (sim, d)) = sim \<and>
   snd (dragstarted ev (sim, d)) = d\<lparr>fx := Some (x d), fy := Some (y d)\<rparr> \<and>
   snd (dragended ev (sim, d)) = d\<lparr>fx := None, fy := None\<rparr>"
  by simp

theorem reheat_guard_witness:
  "(let sim = \<lparr>alphaTarget = 0, restarts = 0\<rparr>;
        d1 = \<lparr>x = 1, y = 2, fx = None, fy = None\<rparr>;
        d2 = \<lparr>x = 3, y = 4, fx = None, fy = None\<rparr>;
        first = \<lparr>x = 1, y = 2, active = 0\<rparr>;
        other = \<lparr>x = 3, y = 4, active = 1\<rparr>;
        sim1 = fst (dragstarted first (sim, d1));
        sim2 = fst (dragstarted other (sim1, d2));
        sim3 = fst (dragended other (sim2, d1));
        sim4 = fst (dragended first (sim3, d2))
    in sim1 = \<lparr>alphaTarget = 0.3, restarts = 1\<rparr> \<and> sim2 = sim1 \<and> sim3 = sim1 \<and>
       sim4 = \<lparr>alphaTarget = 0, restarts = 1\<rparr> \<and>
       snd (dragstarted other (sim1, d2)) = \<lparr>x = 3, y = 4, fx = Some 3, fy = Some 4\<rparr> \<and>
       snd (dragended other (sim2, d1)) = d1)"
  using reheat_guard
    [where ev = "\<lparr>x = 1, y = 2, active = 0\<rparr>"
       and sim = "\<lparr>alphaTarget = 0, restarts = 0\<rparr>"
       and d = "\<lparr>x = 1, y = 2, fx = None, fy = None\<rparr>"]
    reheat_guard
    [where ev = "\<lparr>x = 3, y = 4, active = 1\<rparr>"
       and sim = "\<lparr>alphaTarget = 0.3, restarts = 1\<rparr>"
       and d = "\<lparr>x = 3, y = 4, fx = None, fy = None\<rparr>"]
  by simp

section \<open>Properties of the tabular loader\<close>

lemma split_not_Nil: "split sep s \<noteq> []"
  by (induction s) (auto split: list.splits)

lemma parseCSV_total:
  "parseCSV Number csv =
     Inr (filter hasValue
            (map (\<lambda>line. rowOf Number (split (CHR '','') (hd (split (CHR 0x0A) csv)))
                          (split (CHR '','') line))
               (tl (split (CHR 0x0A) csv))))"
  using split_not_Nil [of "CHR 0x0A" csv]
  by (cases "split (CHR 0x0A) csv") (simp_all add: parseCSV_def elemAt_def drop_Suc)

lemma update_fresh: "k \<notin> fst ` set al \<Longrightarrow> AList.update k v al = al @ [(k, v)]"
  by (induction al) auto

lemma rowOf_fold_distinct:
  assumes "distinct (map trim hs)" and "''__proto__'' \<notin> set (map trim hs)"
    and "set (map trim hs) \<inter> fst ` set acc = {}"
  shows "fold (\<lambda>(i, header) obj. setProp obj (trim header) (decodeCell Number (elemAt values i)))
           (enumerate n hs) acc
         = acc @ map (\<lambda>(i, header). (trim header, decodeCell Number (elemAt values i)))
                   (enumerate n hs)"
  using assms
proof (induction hs arbitrary: n acc)
  case Nil
  then show ?case by simp
next
  case (Cons h hs)
  have fresh: "trim h \<notin> fst ` set acc"
    using Cons.prems(3) by auto
  let ?acc = "acc @ [(trim h, decodeCell Number (elemAt values n))]"
  have step: "setProp acc (trim h) (decodeCell Number (elemAt values n)) = ?acc"
    using Cons.prems(2) fresh by (auto simp: setProp_def update_fresh)
  have "set (map trim hs) \<inter> fst ` set ?acc = {}"
    using Cons.prems(1,3) by auto
  with Cons.prems(1,2) have
    "fold (\<lambda>(i, header) obj. setProp obj (trim header) (decodeCell Number (elemAt values i)))
       (enumerate (Suc n) hs) ?acc
     = ?acc @ map (\<lambda>(i, header). (trim header, decodeCell Number (elemAt values i)))
                (enumerate (Suc n) hs)"
    by (intro Cons.IH) simp_all
  then show ?case
    by (simp add: step)
qed

lemma rowOf_distinct:
  "distinct (map trim headers) \<Longrightarrow> ''__proto__'' \<notin> set (map trim headers) \<Longrightarrow>
     rowOf Number headers values =
       map (\<lambda>(i, header). (trim header, decodeCell Number (elemAt values i)))
         (enumerate 0 headers)"
  unfolding rowOf_def by (subst rowOf_fold_distinct) simp_all

lemma snd_update: "snd ` set (AList.update k v al) \<subseteq> insert v (snd ` set al)"
  by (induction al) auto

lemma rowOf_fold_Null:
  assumes "\<forall>(i, h) \<in> set ihs. decodeCell Number (elemAt values i) = Null"
    and "snd ` set acc \<subseteq> {Null}"
  shows "snd ` set (fold (\<lambda>(i, header) obj.
             setProp obj (trim header) (decodeCell Number (elemAt values i))) ihs acc) \<subseteq> {Null}"
  using assms
proof (induction ihs arbitrary: acc)
  case Nil
  then show ?case by simp
next
  case (Cons ih ihs)
  obtain i h where ih: "ih = (i, h)" by (cases ih)
  have null: "decodeCell Number (elemAt values i) = Null"
    using Cons.prems(1) by (simp add: ih)
  have "snd ` set (setProp acc (trim h) Null) \<subseteq> {Null}"
    using snd_update [of "trim h" Null acc] Cons.prems(2) by (auto simp: setProp_def)
  moreover have "\<forall>(i, h) \<in> set ihs. decodeCell Number (elemAt values i) = Null"
    using Cons.prems(1) by simp
  ultimately show ?case
    using Cons.IH [of "setProp acc (trim h) Null"] by (simp add: ih null)
qed

lemma blank_row_no_value:
  assumes "\<forall>i < length headers. elemAt values i = None \<or> elemAt values i = Some []"
  shows "\<not> hasValue (rowOf Number headers values)"
proof -
  have "\<forall>(i, h) \<in> set (enumerate 0 headers). decodeCell Number (elemAt values i) = Null"
    using assms by (auto simp: in_set_enumerate_eq decodeCell_def)
  then have "snd ` set (rowOf Number headers values) \<subseteq> {Null}"
    unfolding rowOf_def by (rule rowOf_fold_Null) simp
  then show ?thesis
    by (auto simp: hasValue_def list_ex_iff)
qed

text \<open>
  What \<open>parseCSV\<close> does. It never fails: the first line gives the headers, every
  further line gives one record, and the result keeps, in order, the records that have a
  value other than null. A cell under a header decodes to null when it is missing or
  empty, and otherwise to the number \<open>Number\<close> gives for it when that is not NaN and
  to its trimmed text when it is. With trimmed headers that are distinct (and none of
  them \<open>__proto__\<close>) the record of a line has one field for each header, in order,
  holding the decoded cell of that column. A line whose cells under the headers are all
  missing or empty gives a record without a value, which the result does not keep.
\<close>

lemma parseCSV_records:
  "parseCSV Number csv =
     Inr (filter hasValue
            (map (\<lambda>line. rowOf Number (split (CHR '','') (hd (split (CHR 0x0A) csv)))
                          (split (CHR '','') line))
               (tl (split (CHR 0x0A) csv)))) \<and>
   (parseCSV Number csv = Inr rows \<longrightarrow> (\<forall>row \<in> set rows. hasValue row)) \<and>
   decodeCell Number None = Null \<and>
   decodeCell Number (Some []) = Null \<and>
   (s \<noteq> [] \<longrightarrow>
      decodeCell Number (Some s) = (case Number s of Some n \<Rightarrow> Num n | None \<Rightarrow> Str (trim s))) \<and>
   (distinct (map trim headers) \<and> ''__proto__'' \<notin> set (map trim headers) \<longrightarrow>
      rowOf Number headers vals =
        map (\<lambda>(i, header). (trim header, decodeCell Number (elemAt vals i)))
          (enumerate 0 headers)) \<and>
   ((\<forall>i < length headers. elemAt vals i = None \<or> elemAt vals i = Some []) \<longrightarrow>
      \<not> hasValue (rowOf Number headers vals))"
proof (intro conjI impI)
  show total: "parseCSV Number csv =
     Inr (filter hasValue
            (map (\<lambda>line. rowOf Number (split (CHR '','') (hd (split (CHR 0x0A) csv)))
                          (split (CHR '','') line))
               (tl (split (CHR 0x0A) csv))))"
    by (rule parseCSV_total)
  assume "parseCSV Number csv = Inr rows"
  then show "\<forall>row \<in> set rows. hasValue row"
    unfolding total by auto
next
  show "decodeCell Number None = Null" and "decodeCell Number (Some []) = Null"
    by (simp_all add: decodeCell_def)
next
  assume "s \<noteq> []"
  then show "decodeCell Number (Some s)
      = (case Number s of Some n \<Rightarrow> Num n | None \<Rightarrow> Str (trim s))"
    by (simp add: decodeCell_def split: option.splits)
next
  assume "distinct (map trim headers) \<and> ''__proto__'' \<notin> set (map trim headers)"
  then show "rowOf Number headers vals =
        map (\<lambda>(i, header). (trim header, decodeCell Number (elemAt vals i)))
          (enumerate 0 headers)"
    by (simp add: rowOf_distinct)
next
  assume "\<forall>i < length headers. elemAt vals i = None \<or> elemAt vals i = Some []"
  then show "\<not> hasValue (rowOf Number headers vals)"
    by (rule blank_row_no_value)
qed

lemma decodeCell_not_Null: "s \<noteq> [] \<Longrightarrow> decodeCell Number (Some s) \<noteq> Null"
  by (simp add: decodeCell_def split: option.splits)

text \<open>
  C8, at the input where the code departs from it. In a file with CRLF line ends that
  has an empty line between its rows, the empty line is kept as a record: its one cell
  is the carriage return, which is not the empty string, so the field under the first
  header is a number or a text and never null, whatever \<open>Number\<close> makes of the cell.
  A line of white space only is kept in the same way.
\<close>

theorem parseCSV_keeps_blank_line:
  "parseCSV Number
     (''id,weight'' @ [CHR 0x0D, CHR 0x0A] @ ''a,1'' @ [CHR 0x0D, CHR 0x0A] @
      [CHR 0x0D, CHR 0x0A] @ ''b,2'' @ [CHR 0x0D, CHR 0x0A])
     = Inr [[(''id'', decodeCell Number (Some ''a'')),
             (''weight'', decodeCell Number (Some (''1'' @ [CHR 0x0D])))],
            [(''id'', decodeCell Number (Some [CHR 0x0D])), (''weight'', Null)],
            [(''id'', decodeCell Number (Some ''b'')),
             (''weight'', decodeCell Number (Some (''2'' @ [CHR 0x0D])))]] \<and>
   decodeCell Number (Some [CHR 0x0D]) \<noteq> Null \<and>
   rowOf Number [''id'', ''weight''] (split (CHR '','') ''   '')
     = [(''id'', decodeCell Number (Some ''   '')), (''weight'', Null)] \<and>
   hasValue (rowOf Number [''id'', ''weight''] (split (CHR '','') ''   ''))"
proof -
  let ?csv = "''id,weight'' @ [CHR 0x0D, CHR 0x0A] @ ''a,1'' @ [CHR 0x0D, CHR 0x0A] @
      [CHR 0x0D, CHR 0x0A] @ ''b,2'' @ [CHR 0x0D, CHR 0x0A]"
  let ?hs = "[''id'', ''weight'' @ [CHR 0x0D]]"
  have hdr: "split (CHR '','') (hd (split (CHR 0x0A) ?csv)) = ?hs"
    by code_simp
  have rows: "map (split (CHR '','')) (tl (split (CHR 0x0A) ?csv))
      = [[''a'', ''1'' @ [CHR 0x0D]], [[CHR 0x0D]], [''b'', ''2'' @ [CHR 0x0D]], [[]]]"
    by code_simp
  have spc: "split (CHR '','') ''   '' = [''   '']"
    by code_simp
  have trims: "trim ''id'' = ''id''" "trim (''weight'' @ [CHR 0x0D]) = ''weight''"
    "trim ''weight'' = ''weight''"
    by code_simp+
  have row: "rowOf Number ?hs vs
      = [(''id'', decodeCell Number (elemAt vs 0)), (''weight'', decodeCell Number (elemAt vs 1))]"
    for vs
    using trims by (simp add: rowOf_def setProp_def)
  have row': "rowOf Number [''id'', ''weight''] vs
      = [(''id'', decodeCell Number (elemAt vs 0)), (''weight'', decodeCell Number (elemAt vs 1))]"
    for vs
    using trims by (simp add: rowOf_def setProp_def)
  have null: "decodeCell Number None = Null" "decodeCell Number (Some []) = Null"
    by (simp_all add: decodeCell_def)
  have nn: "decodeCell Number (Some ''a'') \<noteq> Null" "decodeCell Number (Some ''b'') \<noteq> Null"
    "decodeCell Number (Some [CHR 0x0D]) \<noteq> Null" "decodeCell Number (Some ''   '') \<noteq> Null"
    by (simp_all add: decodeCell_not_Null)
  have "parseCSV Number ?csv
      = Inr (filter hasValue
               (map (rowOf Number (split (CHR '','') (hd (split (CHR 0x0A) ?csv))))
                  (map (split (CHR '','')) (tl (split (CHR 0x0A) ?csv)))))"
    by (simp only: parseCSV_total map_map comp_def)
  also have "\<dots> = Inr (filter hasValue
      [rowOf Number ?hs [''a'', ''1'' @ [CHR 0x0D]], rowOf Number ?hs [[CHR 0x0D]],
       rowOf Number ?hs [''b'', ''2'' @ [CHR 0x0D]], rowOf Number ?hs [[]]])"
    by (simp only: hdr rows list.map)
  also have "\<dots> = Inr [[(''id'', decodeCell Number (Some ''a'')),
             (''weight'', decodeCell Number (Some (''1'' @ [CHR 0x0D])))],
            [(''id'', decodeCell Number (Some [CHR 0x0D])), (''weight'', Null)],
            [(''id'', decodeCell Number (Some ''b'')),
             (''weight'', decodeCell Number (Some (''2'' @ [CHR 0x0D])))]]"
    unfolding row using nn by (simp add: hasValue_def elemAt_def null)
  finally have parsed: "parseCSV Number ?csv
     = Inr [[(''id'', decodeCell Number (Some ''a'')),
             (''weight'', decodeCell Number (Some (''1'' @ [CHR 0x0D])))],
            [(''id'', decodeCell Number (Some [CHR 0x0D])), (''weight'', Null)],
            [(''id'', decodeCell Number (Some ''b'')),
             (''weight'', decodeCell Number (Some (''2'' @ [CHR 0x0D])))]]" .
  have spaces: "rowOf Number [''id'', ''weight''] (split (CHR '','') ''   '')
     = [(''id'', decodeCell Number (Some ''   '')), (''weight'', Null)]"
    unfolding spc row' by (simp add: elemAt_def null)
  have kept: "hasValue (rowOf Number [''id'', ''weight''] (split (CHR '','') ''   ''))"
    unfolding spaces using nn by (simp add: hasValue_def)
  from parsed nn(3) spaces kept show ?thesis
    by (intro conjI)
qed

section \<open>Properties of loading\<close>










section \<open>Properties of the flag lookup\<close>

lemma getCountryCode_unmapped:
  "c \<notin> fst ` set countryMap \<Longrightarrow> c \<notin> set objectPrototype \<Longrightarrow>
     getCountryCode c = StringValue ''UN''"
  by (simp add: getCountryCode_def getProp_def map_of_eq_None_iff [THEN iffD2])

lemma getCountryCode_Tuvalu: "getCountryCode ''Tuvalu'' = StringValue ''UN''"
  by (rule getCountryCode_unmapped) (simp_all add: countryMap_def objectPrototype_def)

lemma flagCountry_alias: "country d = ''United States'' \<Longrightarrow> flagCountry d = ''USA''"
  by (simp add: flagCountry_def)

lemma toLowerCase_US: "toLowerCase ''US'' = ''us''"
  by code_simp

lemma flagHref_United_States:
  "country d = ''United States'' \<Longrightarrow> flagHref d = Inr ''https://flagcdn.com/w40/us.png''"
  by (simp add: flagHref_def flagCountry_def getCountryCode_def getProp_def countryMap_def
      toLowerCase_US)

text \<open>
  C9, at the input where the code departs from it. The country name \<open>constructor\<close> is
  not in the table, yet the lookup does not give the code \<open>UN\<close>: the property read
  finds the member that the table inherits from \<open>Object.prototype\<close>, a function, which
  \<open>||\<close> keeps, and the call of \<open>toLowerCase\<close> on it throws. (For a name that is
  neither in the table nor a member of \<open>Object.prototype\<close> the lookup gives \<open>UN\<close>,
  as \<open>getCountryCode_unmapped\<close> shows, and \<open>United States\<close> is looked up as
  \<open>USA\<close>.)
\<close>

theorem getCountryCode_inherited_member:
  "''constructor'' \<notin> fst ` set countryMap \<and>
   getCountryCode ''constructor'' = PrototypeMember ''constructor'' \<and>
   getCountryCode ''constructor'' \<noteq> StringValue ''UN'' \<and>
   flagHref \<lparr>x = 0, y = 0, fx = None, fy = None, developer_id = ''a'',
              country = ''constructor'', betweenness = 0, in_degree = 0, out_degree = 0\<rparr>
     = Inl TypeError"
  by (simp add: flagHref_def flagCountry_def getCountryCode_def getProp_def countryMap_def
      objectPrototype_def)

end
